theory Spec2Isabelle
  imports Main
begin

section \<open>JavaScript strings\<close>

text \<open>
  A JavaScript string is a sequence of UTF-16 code units. The model uses \<^typ>\<open>string\<close>,
  whose characters are the code units U+0000 to U+00FF (Latin-1): this covers the
  patterns of the source, whose only character beyond ASCII is U+00E9 (e with acute
  accent), written \<open>CHR 0xE9\<close> below.
\<close>

definition e_acute :: char where
  "e_acute = CHR 0xE9"

text \<open>
  White space and line terminators of ECMAScript inside Latin-1: tab, line feed,
  vertical tab, form feed, carriage return, space and no-break space. They are what
  \<open>String.prototype.trim\<close> removes and what \<open>\s\<close> matches.
\<close>

definition is_space :: "char \<Rightarrow> bool" where
  "is_space c \<longleftrightarrow> c \<in> set [CHR 0x09, CHR 0x0A, CHR 0x0B, CHR 0x0C, CHR 0x0D, CHR 0x20, CHR 0xA0]"

definition js_trim :: "string \<Rightarrow> string" where
  "js_trim s = rev (dropWhile is_space (rev (dropWhile is_space s)))"

text \<open>
  \<open>toLowerCase\<close> on Latin-1: the capitals A to Z and U+00C0 to U+00DE (without the
  multiplication sign U+00D7) move up by 32; nothing else changes.
\<close>

definition is_upper :: "char \<Rightarrow> bool" where
  "is_upper c \<longleftrightarrow>
     (let n = (of_char c :: nat)
      in (65 \<le> n \<and> n \<le> 90) \<or> (192 \<le> n \<and> n \<le> 222 \<and> n \<noteq> 215))"

definition lower_char :: "char \<Rightarrow> char" where
  "lower_char c = (if is_upper c then char_of ((of_char c :: nat) + 32) else c)"

definition toLowerCase :: "string \<Rightarrow> string" where
  "toLowerCase s = map lower_char s"

text \<open>
  The canonical form that a regular expression with the \<open>i\<close> flag compares: the upper
  case of a character. The two small letters of Latin-1 whose capital lies outside
  Latin-1 (U+00B5, U+00FF) and U+00DF, whose capital is two letters, stay as they are,
  which keeps them different from every other character, as in ECMAScript.
\<close>

definition is_lower :: "char \<Rightarrow> bool" where
  "is_lower c \<longleftrightarrow>
     (let n = (of_char c :: nat)
      in (97 \<le> n \<and> n \<le> 122) \<or> (224 \<le> n \<and> n \<le> 254 \<and> n \<noteq> 247))"

definition canonicalize :: "char \<Rightarrow> char" where
  "canonicalize c = (if is_lower c then char_of ((of_char c :: nat) - 32) else c)"

text \<open>\<open>Array.prototype.join\<close> on an array of strings.\<close>

fun js_join :: "string \<Rightarrow> string list \<Rightarrow> string" where
  "js_join sep [] = []"
| "js_join sep [w] = w"
| "js_join sep (w # v # ws) = w @ sep @ js_join sep (v # ws)"

text \<open>
  \<open>s.split(re)\<close> for a regular expression that matches exactly one character of a
  class: the pieces between the separators, empty pieces included. The result is never
  the empty array.
\<close>

fun split_class :: "(char \<Rightarrow> bool) \<Rightarrow> string \<Rightarrow> string list" where
  "split_class P [] = [[]]"
| "split_class P (c # cs) =
     (if P c then [] # split_class P cs
      else (case split_class P cs of
              [] \<Rightarrow> [[c]]
            | w # ws \<Rightarrow> (c # w) # ws))"

text \<open>
  \<open>s.split(/\s+/)\<close>: the separator is a maximal run of white space. A string that
  starts or ends with white space gives an empty first or last piece, and the empty
  string gives one empty piece.
\<close>

function split_spaces :: "string \<Rightarrow> string list" where
  "split_spaces [] = [[]]"
| "split_spaces (c # cs) =
     (if is_space c then [] # split_spaces (dropWhile is_space cs)
      else (case split_spaces cs of
              [] \<Rightarrow> [[c]]
            | w # ws \<Rightarrow> (c # w) # ws))"
  by pat_completeness auto
termination
  by (relation "measure length") (auto simp: length_dropWhile_le less_Suc_eq_le)

section \<open>Regular expressions of the keyword extractor\<close>

text \<open>
  The three patterns of \<open>extractFirstKeyword\<close> are anchored at the start of the text
  and are sequences of these atoms: a literal character, an optional literal
  character (\<open>c?\<close>), \<open>\s*\<close>, and a character class. \<open>rx_prefix\<close> is the backtracking
  matcher of such a sequence against a prefix of the text, comparing characters in
  canonical form as the \<open>i\<close> flag does.
\<close>

datatype atom = Lit char | Opt char | SpaceStar | OneOf "char list"

definition ci_eq :: "char \<Rightarrow> char \<Rightarrow> bool" where
  "ci_eq x c \<longleftrightarrow> canonicalize x = canonicalize c"

function rx_prefix :: "atom list \<Rightarrow> string \<Rightarrow> bool" where
  "rx_prefix [] s = True"
| "rx_prefix (Lit c # as) s =
     (case s of [] \<Rightarrow> False | x # xs \<Rightarrow> ci_eq x c \<and> rx_prefix as xs)"
| "rx_prefix (Opt c # as) s =
     ((case s of [] \<Rightarrow> False | x # xs \<Rightarrow> ci_eq x c \<and> rx_prefix as xs) \<or> rx_prefix as s)"
| "rx_prefix (SpaceStar # as) s =
     ((case s of [] \<Rightarrow> False | x # xs \<Rightarrow> is_space x \<and> rx_prefix (SpaceStar # as) xs)
      \<or> rx_prefix as s)"
| "rx_prefix (OneOf cs # as) s =
     (case s of [] \<Rightarrow> False | x # xs \<Rightarrow> (\<exists>c \<in> set cs. ci_eq x c) \<and> rx_prefix as xs)"
  by pat_completeness auto
termination
  by (relation "measure (\<lambda>(as, s). length as + 2 * length s)") auto

definition lits :: "string \<Rightarrow> atom list" where
  "lits s = map Lit s"

text \<open>\<open>/^nouvelle?\s*id[\<dots>e]e/i\<close>, \<open>/^new\s*idea/i\<close>, \<open>/^nouvel?\s*id[\<dots>e]e/i\<close>, in the source's order.\<close>

definition newIdeaPatterns :: "atom list list" where
  "newIdeaPatterns =
     [ lits ''nouvell'' @ [Opt CHR ''e'', SpaceStar] @ lits ''id'' @ [OneOf [e_acute, CHR ''e''], Lit CHR ''e''],
       lits ''new'' @ [SpaceStar] @ lits ''idea'',
       lits ''nouve'' @ [Opt CHR ''l'', SpaceStar] @ lits ''id'' @ [OneOf [e_acute, CHR ''e''], Lit CHR ''e''] ]"

section \<open>KeywordExtractor: \<open>extractFirstKeyword\<close>\<close>

record keyword_result =
  keyword :: string
  isNewIdea :: bool

definition nouvelle_idee :: string where
  "nouvelle_idee = ''nouvelle id'' @ [e_acute] @ ''e''"

definition is_clause_end :: "char \<Rightarrow> bool" where
  "is_clause_end c \<longleftrightarrow> c \<in> set [CHR ''.'', CHR '','', CHR ''!'', CHR ''?'', CHR '';'', CHR '':'', CHR 0x0A]"

definition normalize :: "string \<Rightarrow> string" where
  "normalize transcription = toLowerCase (js_trim transcription)"

text \<open>
  The \<open>for\<close> loop over the patterns returns at the first pattern that matches. The
  first element of the \<open>split\<close> result always exists; the model writes the empty
  array as a case of its own, with the value the empty clause would give.
\<close>

fun first_match :: "atom list list \<Rightarrow> string \<Rightarrow> bool" where
  "first_match [] s = False"
| "first_match (p # ps) s = (if rx_prefix p s then True else first_match ps s)"

definition extractFirstKeyword :: "string \<Rightarrow> keyword_result" where
  "extractFirstKeyword transcription =
     (let text = normalize transcription
      in if first_match newIdeaPatterns text
         then \<lparr>keyword = nouvelle_idee, isNewIdea = True\<rparr>
         else
           (let firstWords = js_trim (case split_class is_clause_end text of [] \<Rightarrow> [] | w # _ \<Rightarrow> w);
                keyword = js_join '' '' (take 3 (split_spaces firstWords))
            in \<lparr>keyword = keyword, isNewIdea = False\<rparr>))"


subsection \<open>The extractor in the words of the specification\<close>



definition matches_new_idea :: "string \<Rightarrow> bool" where
  "matches_new_idea text \<longleftrightarrow> (\<exists>p \<in> set newIdeaPatterns. rx_prefix p text)"

section \<open>Thrown values and effects\<close>

text \<open>
  What a JavaScript \<open>throw\<close> carries: an \<open>Error\<close> with its message, a \<open>TRPCError\<close>
  (a subclass of \<open>Error\<close>) with its code and message, or a value that is not an
  instance of \<open>Error\<close>.
\<close>

datatype trpc_code = NOT_FOUND | CONFLICT | FORBIDDEN | BAD_REQUEST | INTERNAL_SERVER_ERROR

datatype thrown = JsError string | TRPCError trpc_code string | NonError

section \<open>The database (drizzle/schema.ts)\<close>

text \<open>
  One record per table row, with the columns of the schema. Identifiers and
  timestamps are natural numbers; \<open>None\<close> is SQL \<open>NULL\<close>. A table is the list of its
  rows in insertion order (the tables are named \<open>project_rows\<close>, \<open>video_rows\<close> and
  \<open>document_rows\<close>), with the next value of its auto-increment counter.
\<close>

datatype video_status = Uploading | Uploaded | Transcribing | Transcribed | ErrorStatus

record project =
  project_id :: nat
  project_userId :: nat
  project_name :: string
  project_description :: "string option"
  project_isNewIdeas :: bool
  project_thumbnailUrl :: "string option"
  project_color :: "string option"
  project_createdAt :: nat
  project_updatedAt :: nat

record video =
  video_id :: nat
  video_userId :: nat
  video_projectId :: nat
  video_filename :: string
  video_videoUrl :: string
  video_videoKey :: string
  video_duration :: "nat option"
  video_fileSize :: "nat option"
  video_mimeType :: "string option"
  video_transcription :: "string option"
  video_firstKeyword :: "string option"
  video_status :: video_status
  video_errorMessage :: "string option"
  video_createdAt :: nat
  video_updatedAt :: nat

record document =
  document_id :: nat
  document_projectId :: nat
  document_userId :: nat
  document_title :: string
  document_content :: string
  document_version :: int
  document_versionNotes :: "string option"
  document_videosIncorporated :: nat
  document_createdAt :: nat
  document_updatedAt :: nat

record db =
  project_rows :: "project list"
  video_rows :: "video list"
  document_rows :: "document list"
  next_project_id :: nat
  next_video_id :: nat
  next_document_id :: nat





record insert_document =
  id_projectId :: nat
  id_userId :: nat
  id_title :: string
  id_content :: string
  id_versionNotes :: "string option"
  id_videosIncorporated :: "nat option"

record document_patch =
  dp_title :: "string option"
  dp_content :: "string option"
  dp_version :: "int option"
  dp_versionNotes :: "string option"
  dp_videosIncorporated :: "nat option"


section \<open>The world: database handle, clock and the log of outbound calls\<close>

text \<open>
  A request to a collaborator outside the process is logged when it is made, whatever
  its outcome. The prompts sent to the text-generation service are fixed French
  templates; the model keeps which template is sent and the values put into it.
\<close>

datatype prompt =
    UpdateDocumentPrompt string string "string list" nat
  | CreateDocumentPrompt string "string option" "string list"
  | SummaryPrompt string
  | ThumbnailPrompt string string

record anthropic_request =
  max_tokens :: nat
  with_system :: bool
  user_content :: prompt

datatype content_block = TextBlock string | OtherBlock

datatype whisper_result = WhisperText string | WhisperError string

datatype ext_call =
    StoragePut string string string
  | SpeechToText string
  | TextUnderstanding string
  | TextGeneration anthropic_request
  | ImageGeneration string

text \<open>
  \<open>database\<close> is what \<open>getDb()\<close> resolves to: \<open>None\<close> when no database is
  configured. \<open>clock\<close> is the time that \<open>new Date()\<close> and SQL \<open>now()\<close> read.
\<close>

record world =
  database :: "db option"
  clock :: nat
  calls :: "ext_call list"

type_synonym 'a io = "world \<Rightarrow> (thrown + 'a) \<times> world"

definition return :: "'a \<Rightarrow> 'a io" where
  "return x = (\<lambda>w. (Inr x, w))"

definition throw :: "thrown \<Rightarrow> 'a io" where
  "throw e = (\<lambda>w. (Inl e, w))"

text \<open>Sequencing of \<open>await\<close>ed steps: a thrown value ends the sequence.\<close>

definition bind :: "'a io \<Rightarrow> ('a \<Rightarrow> 'b io) \<Rightarrow> 'b io" where
  "bind m f = (\<lambda>w. case m w of (Inl e, w') \<Rightarrow> (Inl e, w') | (Inr x, w') \<Rightarrow> f x w')"

text \<open>\<open>try { m } catch (error) { h error }\<close>.\<close>

definition try_catch :: "'a io \<Rightarrow> (thrown \<Rightarrow> 'a io) \<Rightarrow> 'a io" where
  "try_catch m h = (\<lambda>w. case m w of (Inl e, w') \<Rightarrow> h e w' | (Inr x, w') \<Rightarrow> (Inr x, w'))"

text \<open>
  The opening of every helper in db.ts:
  \<open>const db = await getDb(); if (!db) throw new Error("Database not available");\<close>
  followed by statements on the database, given here as a function of the clock and
  the tables that returns a result and the new tables.
\<close>

definition with_db :: "(nat \<Rightarrow> db \<Rightarrow> 'a \<times> db) \<Rightarrow> 'a io" where
  "with_db f = (\<lambda>w. case database w of
       None \<Rightarrow> (Inl (JsError ''Database not available''), w)
     | Some d \<Rightarrow> (case f (clock w) d of (x, d') \<Rightarrow> (Inr x, w\<lparr>database := Some d'\<rparr>)))"

text \<open>
  \<open>orderBy(desc(column))\<close>: rows with equal keys keep their table order (MySQL leaves
  their order open). \<open>limit(1)\<close> followed by \<open>result[0]\<close> is the first row, or
  \<open>undefined\<close> (\<open>None\<close>) when there is none.
\<close>

definition order_desc :: "('r \<Rightarrow> int) \<Rightarrow> 'r list \<Rightarrow> 'r list" where
  "order_desc k rows = sort_key (\<lambda>r. - k r) rows"

definition first_row :: "'r list \<Rightarrow> 'r option" where
  "first_row rows = (case rows of [] \<Rightarrow> None | r # _ \<Rightarrow> Some r)"

subsection \<open>Project helpers\<close>



definition getProjectsByUserId :: "nat \<Rightarrow> project list io" where
  "getProjectsByUserId userId = with_db (\<lambda>now d.
     (order_desc (\<lambda>r. int (project_updatedAt r))
        (filter (\<lambda>r. project_userId r = userId) (project_rows d)), d))"

definition getProjectById :: "nat \<Rightarrow> nat \<Rightarrow> project option io" where
  "getProjectById projectId userId = with_db (\<lambda>now d.
     (first_row (filter (\<lambda>r. project_id r = projectId \<and> project_userId r = userId) (project_rows d)), d))"






definition deleteProject :: "nat \<Rightarrow> nat \<Rightarrow> bool io" where
  "deleteProject projectId userId = with_db (\<lambda>now d.
     (True, d\<lparr>project_rows := filter (\<lambda>r. \<not> (project_id r = projectId \<and> project_userId r = userId)) (project_rows d)\<rparr>))"


subsection \<open>Video helpers\<close>



definition getVideosByProjectId :: "nat \<Rightarrow> nat \<Rightarrow> video list io" where
  "getVideosByProjectId projectId userId = with_db (\<lambda>now d.
     (order_desc (\<lambda>r. int (video_createdAt r))
        (filter (\<lambda>r. video_projectId r = projectId \<and> video_userId r = userId) (video_rows d)), d))"

definition getVideoById :: "nat \<Rightarrow> nat \<Rightarrow> video option io" where
  "getVideoById videoId userId = with_db (\<lambda>now d.
     (first_row (filter (\<lambda>r. video_id r = videoId \<and> video_userId r = userId) (video_rows d)), d))"

definition getVideosByUserId :: "nat \<Rightarrow> video list io" where
  "getVideosByUserId userId = with_db (\<lambda>now d.
     (order_desc (\<lambda>r. int (video_createdAt r)) (filter (\<lambda>r. video_userId r = userId) (video_rows d)), d))"



definition deleteVideo :: "nat \<Rightarrow> nat \<Rightarrow> bool io" where
  "deleteVideo videoId userId = with_db (\<lambda>now d.
     (True, d\<lparr>video_rows := filter (\<lambda>r. \<not> (video_id r = videoId \<and> video_userId r = userId)) (video_rows d)\<rparr>))"

definition countVideosByProjectId :: "nat \<Rightarrow> nat io" where
  "countVideosByProjectId projectId = with_db (\<lambda>now d.
     (length (filter (\<lambda>r. video_projectId r = projectId) (video_rows d)), d))"

subsection \<open>Document helpers\<close>

definition new_document_row :: "nat \<Rightarrow> nat \<Rightarrow> insert_document \<Rightarrow> document" where
  "new_document_row n now doc =
     \<lparr>document_id = n, document_projectId = id_projectId doc, document_userId = id_userId doc,
      document_title = id_title doc, document_content = id_content doc,
      document_version = 1, document_versionNotes = id_versionNotes doc,
      document_videosIncorporated = (case id_videosIncorporated doc of None \<Rightarrow> 0 | Some k \<Rightarrow> k),
      document_createdAt = now, document_updatedAt = now\<rparr>"

definition createDocument :: "insert_document \<Rightarrow> document option io" where
  "createDocument doc = with_db (\<lambda>now d.
     let d' = d\<lparr>document_rows := document_rows d @ [new_document_row (next_document_id d) now doc],
                next_document_id := Suc (next_document_id d)\<rparr>;
         result = order_desc (\<lambda>r. int (document_createdAt r))
                    (filter (\<lambda>r. document_projectId r = id_projectId doc \<and> document_userId r = id_userId doc)
                       (document_rows d'))
     in (first_row result, d'))"

definition getDocumentByProjectId :: "nat \<Rightarrow> nat \<Rightarrow> document option io" where
  "getDocumentByProjectId projectId userId = with_db (\<lambda>now d.
     (first_row (order_desc document_version
        (filter (\<lambda>r. document_projectId r = projectId \<and> document_userId r = userId) (document_rows d))), d))"

definition getDocumentsByUserId :: "nat \<Rightarrow> document list io" where
  "getDocumentsByUserId userId = with_db (\<lambda>now d.
     (order_desc (\<lambda>r. int (document_updatedAt r)) (filter (\<lambda>r. document_userId r = userId) (document_rows d)), d))"

definition apply_document_patch :: "document_patch \<Rightarrow> nat \<Rightarrow> document \<Rightarrow> document" where
  "apply_document_patch data now r =
     r\<lparr>document_title := (case dp_title data of None \<Rightarrow> document_title r | Some x \<Rightarrow> x),
       document_content := (case dp_content data of None \<Rightarrow> document_content r | Some x \<Rightarrow> x),
       document_version := (case dp_version data of None \<Rightarrow> document_version r | Some x \<Rightarrow> x),
       document_versionNotes := (case dp_versionNotes data of None \<Rightarrow> document_versionNotes r | Some x \<Rightarrow> Some x),
       document_videosIncorporated :=
         (case dp_videosIncorporated data of None \<Rightarrow> document_videosIncorporated r | Some x \<Rightarrow> x),
       document_updatedAt := now\<rparr>"

text \<open>
  \<open>updateDocument\<close> writes the rows with the given id and owner, then reads back by
  id alone.
\<close>

definition updateDocument :: "nat \<Rightarrow> nat \<Rightarrow> document_patch \<Rightarrow> document option io" where
  "updateDocument documentId userId data = with_db (\<lambda>now d.
     let d' = d\<lparr>document_rows := map (\<lambda>r. if document_id r = documentId \<and> document_userId r = userId
                                          then apply_document_patch data now r else r) (document_rows d)\<rparr>
     in (first_row (filter (\<lambda>r. document_id r = documentId) (document_rows d')), d'))"

definition deleteDocument :: "nat \<Rightarrow> nat \<Rightarrow> bool io" where
  "deleteDocument documentId userId = with_db (\<lambda>now d.
     (True, d\<lparr>document_rows := filter (\<lambda>r. \<not> (document_id r = documentId \<and> document_userId r = userId)) (document_rows d)\<rparr>))"


section \<open>Collaborators outside the process\<close>

text \<open>
  The three properties that \<open>transcribeWithGemini\<close> reads from the parsed object,
  with the types that the prompt asks for and that \<open>TranscriptionResult\<close> declares;
  \<open>None\<close> is a property that is absent or \<open>null\<close>.
\<close>

record analysis_json =
  firstKeyword_field :: "string option"
  isNewIdea_field :: "bool option"
  suggestedProjectName_field :: "string option"

text \<open>
  The environment of a request. \<open>genAI\<close> and \<open>anthropic\<close> are \<open>None\<close> when the API
  key is not configured; otherwise they answer a request with a result or throw.
  \<open>genAI\<close> receives the transcript that the analysis prompt is built around and
  gives the text of the response. \<open>transcribeAudio\<close> receives the URL (language and
  prompt hint are constants). \<open>JSON_parse\<close> is the JavaScript built-in, which returns
  the parsed object or throws a \<open>SyntaxError\<close>. \<open>storagePut\<close> receives key, content and
  MIME type and gives the URL; \<open>nanoid\<close> is the random identifier drawn for a key.
\<close>

record env =
  genAI :: "(string \<Rightarrow> thrown + string) option"
  transcribeAudio :: "string \<Rightarrow> thrown + whisper_result"
  anthropic :: "(anthropic_request \<Rightarrow> thrown + content_block list) option"
  generateImage :: "string \<Rightarrow> thrown + string"
  JSON_parse :: "string \<Rightarrow> thrown + analysis_json"
  storagePut :: "string \<Rightarrow> string \<Rightarrow> string \<Rightarrow> thrown + string"
  nanoid :: string

text \<open>An outbound call: logged, then answered.\<close>

definition outbound :: "ext_call \<Rightarrow> thrown + 'a \<Rightarrow> 'a io" where
  "outbound c answer = (\<lambda>w. (answer, w\<lparr>calls := calls w @ [c]\<rparr>))"

section \<open>services/transcription.ts\<close>

record TranscriptionResult =
  result_text :: string
  result_firstKeyword :: string
  result_isNewIdea :: bool
  result_suggestedProjectName :: "string option"

text \<open>
  \<open>responseText.match(/\{[\s\S]*\}/)\<close>: from the first opening brace to the last
  closing brace after it; no match when there is no such pair.
\<close>

definition jsonMatch :: "string \<Rightarrow> string option" where
  "jsonMatch responseText =
     (case dropWhile (\<lambda>c. c \<noteq> CHR ''{'') responseText of
        [] \<Rightarrow> None
      | b # rest \<Rightarrow>
          if CHR ''}'' \<in> set rest
          then Some (b # rev (dropWhile (\<lambda>c. c \<noteq> CHR ''}'') (rev rest)))
          else None)"

text \<open>\<open>x || ""\<close> and \<open>x || null\<close> on a string that may be absent.\<close>

definition or_empty :: "string option \<Rightarrow> string" where
  "or_empty x = (case x of None \<Rightarrow> [] | Some s \<Rightarrow> s)"

definition or_null :: "string option \<Rightarrow> string option" where
  "or_null x = (case x of None \<Rightarrow> None | Some s \<Rightarrow> if s = [] then None else Some s)"

definition transcribeWithGemini :: "env \<Rightarrow> string \<Rightarrow> TranscriptionResult io" where
  "transcribeWithGemini E videoUrl =
     (case genAI E of
        None \<Rightarrow> throw (JsError ''Gemini API not configured. Please set GEMINI_API_KEY environment variable.'')
      | Some generateContent \<Rightarrow>
          try_catch
            (bind (outbound (SpeechToText videoUrl) (transcribeAudio E videoUrl)) (\<lambda>whisperResult.
               case whisperResult of
                 WhisperError msg \<Rightarrow> throw (JsError msg)
               | WhisperText transcriptionText \<Rightarrow>
                   bind (outbound (TextUnderstanding transcriptionText) (generateContent transcriptionText))
                     (\<lambda>responseText.
                        case jsonMatch responseText of
                          None \<Rightarrow>
                            (let extracted = extractFirstKeyword transcriptionText
                             in return
                                  \<lparr>result_text = transcriptionText,
                                   result_firstKeyword = keyword extracted,
                                   result_isNewIdea = isNewIdea extracted,
                                   result_suggestedProjectName =
                                     (if isNewIdea extracted then None else Some (keyword extracted))\<rparr>)
                        | Some m \<Rightarrow>
                            (case JSON_parse E m of
                               Inl e \<Rightarrow> throw e
                             | Inr parsed \<Rightarrow>
                                 return
                                   \<lparr>result_text = transcriptionText,
                                    result_firstKeyword = or_empty (firstKeyword_field parsed),
                                    result_isNewIdea = (isNewIdea_field parsed = Some True),
                                    result_suggestedProjectName = or_null (suggestedProjectName_field parsed)\<rparr>))))
            (\<lambda>error. throw error))"

section \<open>services/documentGeneration.ts\<close>

record DocumentGenerationInput =
  projectName :: string
  projectDescription :: "string option"
  existingContent :: "string option"
  newTranscriptions :: "string list"
  videosCount :: nat

record GeneratedDocument =
  generated_title :: string
  generated_content :: string
  generated_summary :: string

text \<open>
  \<open>documentContent.match(/^#\s+(.+)$/m)\<close>, group 1. A line starts at the start of the
  text and after a line terminator. After the \<open>#\<close>, \<open>\s+\<close> takes the whole run of
  white space and gives characters back one at a time until the next character
  exists and is not a line terminator; the title runs from there to the end of the
  line.
\<close>

definition is_line_terminator :: "char \<Rightarrow> bool" where
  "is_line_terminator c \<longleftrightarrow> c = CHR 0x0A \<or> c = CHR 0x0D"

fun backtrack_spaces :: "nat \<Rightarrow> string \<Rightarrow> string option" where
  "backtrack_spaces 0 s = None"
| "backtrack_spaces (Suc j) s =
     (case drop (Suc j) s of
        [] \<Rightarrow> backtrack_spaces j s
      | x # xs \<Rightarrow>
          if is_line_terminator x then backtrack_spaces j s
          else Some (takeWhile (\<lambda>c. \<not> is_line_terminator c) (x # xs)))"

definition title_at :: "string \<Rightarrow> string option" where
  "title_at line =
     (case line of
        [] \<Rightarrow> None
      | c # s \<Rightarrow> if c = CHR ''#'' then backtrack_spaces (length (takeWhile is_space s)) s else None)"

fun titleMatch_from :: "bool \<Rightarrow> string \<Rightarrow> string option" where
  "titleMatch_from at_line_start [] = None"
| "titleMatch_from at_line_start (c # cs) =
     (case (if at_line_start then title_at (c # cs) else None) of
        Some t \<Rightarrow> Some t
      | None \<Rightarrow> titleMatch_from (is_line_terminator c) cs)"

definition titleMatch :: "string \<Rightarrow> string option" where
  "titleMatch documentContent = titleMatch_from True documentContent"

text \<open>Truthiness of a string that may be \<open>undefined\<close> or \<open>null\<close>: present and not empty.\<close>

definition truthy :: "string option \<Rightarrow> bool" where
  "truthy x \<longleftrightarrow> (case x of None \<Rightarrow> False | Some s \<Rightarrow> s \<noteq> [])"

text \<open>Reading \<open>.type\<close> of \<open>response.content[0]\<close>; on an empty array this is a \<open>TypeError\<close>.\<close>

definition first_block :: "content_block list \<Rightarrow> content_block io" where
  "first_block content =
     (case content of
        [] \<Rightarrow> throw (JsError ''Cannot read properties of undefined (reading 'type')'')
      | c # _ \<Rightarrow> return c)"

text \<open>The three requests sent to \<open>anthropic.messages.create\<close>.\<close>

definition document_request :: "DocumentGenerationInput \<Rightarrow> anthropic_request" where
  "document_request input =
     (let isUpdate = truthy (existingContent input);
          userPrompt =
            (if isUpdate
             then UpdateDocumentPrompt (projectName input) (or_empty (existingContent input))
                    (newTranscriptions input) (videosCount input)
             else CreateDocumentPrompt (projectName input)
                    (if truthy (projectDescription input) then projectDescription input else None)
                    (newTranscriptions input))
      in \<lparr>max_tokens = 4096, with_system = True, user_content = userPrompt\<rparr>)"

definition summary_request :: "string \<Rightarrow> anthropic_request" where
  "summary_request documentContent =
     \<lparr>max_tokens = 200, with_system = False, user_content = SummaryPrompt (take 2000 documentContent)\<rparr>"


definition generateProjectDocument :: "env \<Rightarrow> DocumentGenerationInput \<Rightarrow> GeneratedDocument io" where
  "generateProjectDocument E input =
     (case anthropic E of
        None \<Rightarrow> throw (JsError ''Anthropic API not configured. Please set ANTHROPIC_API_KEY environment variable.'')
      | Some create \<Rightarrow>
          try_catch
            (bind (outbound (TextGeneration (document_request input)) (create (document_request input)))
               (\<lambda>response.
             bind (first_block response) (\<lambda>content.
               case content of
                 OtherBlock \<Rightarrow> throw (JsError ''Unexpected response type from Claude'')
               | TextBlock documentContent \<Rightarrow>
                   (let title = (case titleMatch documentContent of
                                   Some t \<Rightarrow> t
                                 | None \<Rightarrow> ''Document de pr'' @ [e_acute] @ ''sentation - '' @ projectName input)
                    in bind (outbound (TextGeneration (summary_request documentContent))
                               (create (summary_request documentContent)))
                         (\<lambda>summaryResponse.
                          bind (first_block summaryResponse) (\<lambda>summaryContent.
                            return
                              \<lparr>generated_title = title,
                               generated_content = documentContent,
                               generated_summary =
                                 (case summaryContent of TextBlock t \<Rightarrow> t | OtherBlock \<Rightarrow> [])\<rparr>))))))
            (\<lambda>error. throw error))"


section \<open>routers.ts\<close>

text \<open>
  A protected procedure runs with the authenticated user of the context; the
  procedures read the user's id only. Input numbers are natural numbers (a negative
  number or a fraction matches no row).
\<close>

datatype role = RoleUser | RoleAdmin

record user =
  user_id :: nat
  user_role :: role


subsection \<open>projects\<close>

definition projects_list :: "user \<Rightarrow> project list io" where
  "projects_list u = getProjectsByUserId (user_id u)"

definition projects_get :: "user \<Rightarrow> nat \<Rightarrow> project io" where
  "projects_get u pid =
     bind (getProjectById pid (user_id u)) (\<lambda>project.
       case project of
         None \<Rightarrow> throw (TRPCError NOT_FOUND ''Project not found'')
       | Some r \<Rightarrow> return r)"




definition projects_delete :: "user \<Rightarrow> nat \<Rightarrow> bool io" where
  "projects_delete u pid =
     bind (getProjectById pid (user_id u)) (\<lambda>project.
       case project of
         None \<Rightarrow> throw (TRPCError NOT_FOUND ''Project not found'')
       | Some r \<Rightarrow>
           if project_isNewIdeas r
           then throw (TRPCError FORBIDDEN ''Cannot delete the 'New Ideas' category'')
           else bind (deleteProject pid (user_id u)) (\<lambda>_. return True))"


subsection \<open>videos\<close>




record upload_input =
  up_filename :: string
  up_mimeType :: string
  up_fileSize :: nat
  up_duration :: "nat option"
  up_videoBase64 :: string






definition videos_delete :: "user \<Rightarrow> nat \<Rightarrow> bool io" where
  "videos_delete u vid =
     bind (getVideoById vid (user_id u)) (\<lambda>video.
       case video of
         None \<Rightarrow> throw (TRPCError NOT_FOUND ''Video not found'')
       | Some _ \<Rightarrow> bind (deleteVideo vid (user_id u)) (\<lambda>_. return True))"


subsection \<open>documents\<close>

text \<open>\<open>v.status === "transcribed" && v.transcription\<close>.\<close>

definition is_transcribed :: "video \<Rightarrow> bool" where
  "is_transcribed v \<longleftrightarrow> video_status v = Transcribed \<and> truthy (video_transcription v)"

definition no_document_patch :: document_patch where
  "no_document_patch =
     \<lparr>dp_title = None, dp_content = None, dp_version = None, dp_versionNotes = None,
      dp_videosIncorporated = None\<rparr>"

definition documents_getByProject :: "user \<Rightarrow> nat \<Rightarrow> document option io" where
  "documents_getByProject u pid = getDocumentByProjectId pid (user_id u)"

definition documents_generate :: "env \<Rightarrow> user \<Rightarrow> nat \<Rightarrow> document option io" where
  "documents_generate E u pid =
     bind (getProjectById pid (user_id u)) (\<lambda>found.
       case found of
         None \<Rightarrow> throw (TRPCError NOT_FOUND ''Project not found'')
       | Some project \<Rightarrow>
           bind (getVideosByProjectId pid (user_id u)) (\<lambda>vs.
             let transcribedVideos = filter is_transcribed vs
             in if length transcribedVideos = 0
                then throw (TRPCError BAD_REQUEST ''No transcribed videos available for this project'')
                else
                  bind (getDocumentByProjectId pid (user_id u)) (\<lambda>existingDoc.
                  bind (generateProjectDocument E
                          \<lparr>projectName = project_name project,
                           projectDescription =
                             (if truthy (project_description project) then project_description project else None),
                           existingContent = map_option document_content existingDoc,
                           newTranscriptions = map (\<lambda>v. or_empty (video_transcription v)) transcribedVideos,
                           videosCount = length transcribedVideos\<rparr>) (\<lambda>generated.
                    case existingDoc of
                      Some doc \<Rightarrow>
                        updateDocument (document_id doc) (user_id u)
                          \<lparr>dp_title = Some (generated_title generated),
                           dp_content = Some (generated_content generated),
                           dp_version = Some (document_version doc + 1),
                           dp_versionNotes = Some (generated_summary generated),
                           dp_videosIncorporated = Some (length transcribedVideos)\<rparr>
                    | None \<Rightarrow>
                        createDocument
                          \<lparr>id_projectId = pid, id_userId = user_id u,
                           id_title = generated_title generated,
                           id_content = generated_content generated,
                           id_versionNotes = Some (generated_summary generated),
                           id_videosIncorporated = Some (length transcribedVideos)\<rparr>))))"

definition documents_update :: "user \<Rightarrow> nat \<Rightarrow> string \<Rightarrow> document option io" where
  "documents_update u did content =
     updateDocument did (user_id u) (no_document_patch\<lparr>dp_content := Some content\<rparr>)"

definition documents_delete :: "user \<Rightarrow> nat \<Rightarrow> bool io" where
  "documents_delete u did = bind (deleteDocument did (user_id u)) (\<lambda>_. return True)"

section \<open>Requests and reachable worlds\<close>

text \<open>
  The mutations of the router. A world is reachable when it comes from a world with
  empty tables by a sequence of requests, each handled to its end before the next
  starts, with any environment and any reading of the clock.
\<close>

datatype request =
    ProjectsGetNewIdeas user
  | ProjectsCreate user string "string option" "string option"
  | ProjectsUpdate user nat "string option" "string option" "string option"
  | ProjectsDelete user nat
  | ProjectsGenerateThumbnail user nat
  | VideosUpload user upload_input
  | VideosTranscribe user nat
  | VideosReassign user nat nat
  | VideosDelete user nat
  | DocumentsGenerate user nat
  | DocumentsUpdate user nat string
  | DocumentsDelete user nat




section \<open>Notions used by the properties\<close>

text \<open>The videos of a project, as \<open>getVideosByProjectId\<close> scopes them: by project and owner.\<close>

definition project_videos :: "db \<Rightarrow> nat \<Rightarrow> nat \<Rightarrow> video list" where
  "project_videos d pid uid = filter (\<lambda>r. video_projectId r = pid \<and> video_userId r = uid) (video_rows d)"

definition transcribed_count :: "db \<Rightarrow> nat \<Rightarrow> nat \<Rightarrow> nat" where
  "transcribed_count d pid uid = length (filter is_transcribed (project_videos d pid uid))"

text \<open>An action that leaves the database handle and the clock as they are.\<close>

definition db_frame :: "'a io \<Rightarrow> bool" where
  "db_frame m \<longleftrightarrow> (\<forall>w. database (snd (m w)) = database w \<and> clock (snd (m w)) = clock w)"


text \<open>
  The projects of a user that carry the flag \<open>isNewIdeas\<close>. The project table is in
  order when no user has two of them and the ids are distinct and below the
  auto-increment counter.
\<close>

definition new_ideas_of :: "db \<Rightarrow> nat \<Rightarrow> project list" where
  "new_ideas_of d uid = filter (\<lambda>r. project_userId r = uid \<and> project_isNewIdeas r = True) (project_rows d)"

definition projects_ok :: "db \<Rightarrow> bool" where
  "projects_ok d \<longleftrightarrow>
     (\<forall>uid. length (new_ideas_of d uid) \<le> 1)
     \<and> distinct (map project_id (project_rows d))
     \<and> (\<forall>r \<in> set (project_rows d). project_id r < next_project_id d)"

definition world_ok :: "world \<Rightarrow> bool" where
  "world_ok w \<longleftrightarrow> (case database w of None \<Rightarrow> True | Some d \<Rightarrow> projects_ok d)"

definition keeps_ok :: "'a io \<Rightarrow> bool" where
  "keeps_ok m \<longleftrightarrow> (\<forall>w. world_ok w \<longrightarrow> world_ok (snd (m w)))"


section \<open>Example data\<close>

definition alice :: user where
  "alice = \<lparr>user_id = 1, user_role = RoleUser\<rparr>"

definition phoenix :: project where
  "phoenix = \<lparr>project_id = 1, project_userId = 1, project_name = ''Phoenix'',
     project_description = None, project_isNewIdeas = False, project_thumbnailUrl = None,
     project_color = Some ''#3B82F6'', project_createdAt = 10, project_updatedAt = 10\<rparr>"

definition clip :: video where
  "clip = \<lparr>video_id = 1, video_userId = 1, video_projectId = 1, video_filename = ''a.webm'',
     video_videoUrl = ''https://storage/a.webm'', video_videoKey = ''videos/1/k.webm'',
     video_duration = None, video_fileSize = Some 1000, video_mimeType = Some ''video/webm'',
     video_transcription = None, video_firstKeyword = None, video_status = Uploaded,
     video_errorMessage = None, video_createdAt = 20, video_updatedAt = 20\<rparr>"

definition world_of :: "db \<Rightarrow> world" where
  "world_of d = \<lparr>database = Some d, clock = 100, calls = []\<rparr>"

definition db_uploaded :: db where
  "db_uploaded = \<lparr>project_rows = [phoenix], video_rows = [clip], document_rows = [],
     next_project_id = 2, next_video_id = 2, next_document_id = 1\<rparr>"

text \<open>An environment in which nothing is configured and every collaborator throws.\<close>

definition silent_env :: env where
  "silent_env = \<lparr>genAI = None, transcribeAudio = (\<lambda>url. Inl NonError), anthropic = None,
     generateImage = (\<lambda>p. Inl NonError), JSON_parse = (\<lambda>s. Inl NonError),
     storagePut = (\<lambda>k c m. Inl NonError), nanoid = ''k''\<rparr>"

definition clip_done :: video where
  "clip_done = clip\<lparr>video_transcription := Some ''Phoenix est un projet de refonte.'',
     video_firstKeyword := Some ''phoenix'', video_status := Transcribed\<rparr>"

definition phoenix_doc :: document where
  "phoenix_doc = \<lparr>document_id = 1, document_projectId = 1, document_userId = 1,
     document_title = ''Phoenix'', document_content = ''# Phoenix'', document_version = 3,
     document_versionNotes = Some ''notes'', document_videosIncorporated = 1,
     document_createdAt = 30, document_updatedAt = 40\<rparr>"

definition db_documented :: db where
  "db_documented = \<lparr>project_rows = [phoenix], video_rows = [clip_done], document_rows = [phoenix_doc],
     next_project_id = 2, next_video_id = 2, next_document_id = 2\<rparr>"

text \<open>An environment in which the text-generation service answers every request.\<close>

definition writer_env :: env where
  "writer_env = silent_env\<lparr>anthropic := Some (\<lambda>request.
     case user_content request of
       SummaryPrompt _ \<Rightarrow> Inr [TextBlock ''A summary.'']
     | _ \<Rightarrow> Inr [TextBlock ''# Phoenix 2''])\<rparr>"

definition db_transcribed :: db where
  "db_transcribed = \<lparr>project_rows = [phoenix], video_rows = [clip_done], document_rows = [],
     next_project_id = 2, next_video_id = 2, next_document_id = 1\<rparr>"


text \<open>
  An environment in which the recording is transcribed and the text-understanding
  service answers \<open>{nope}\<close>; \<open>JSON_parse\<close> stands for \<open>JSON.parse\<close> on that text,
  which throws a \<open>SyntaxError\<close>.
\<close>

definition garbled_env :: env where
  "garbled_env = silent_env\<lparr>genAI := Some (\<lambda>transcript. Inr ''{nope}''),
     transcribeAudio := (\<lambda>url. Inr (WhisperText ''Phoenix est un projet de refonte.'')),
     JSON_parse := (\<lambda>s. Inl (JsError ''Unexpected token n in JSON at position 1''))\<rparr>"

text \<open>The same with an answer that has no braces at all.\<close>

definition chatty_env :: env where
  "chatty_env = garbled_env\<lparr>genAI := Some (\<lambda>transcript. Inr ''Le mot est phoenix.'')\<rparr>"










section \<open>Properties of the keyword extractor\<close>

lemma first_match_iff: "first_match ps s \<longleftrightarrow> (\<exists>p \<in> set ps. rx_prefix p s)"
  by (induction ps) auto










text \<open>
  Claim C6, as amended. When the trimmed, lower-cased transcript matches one of the
  three cue patterns, \<open>extractFirstKeyword\<close> returns \<open>isNewIdea = true\<close> and the fixed
  keyword \<open>nouvelle id\<dots>e\<close> (with U+00E9), whichever pattern matched.
\<close>

theorem new_idea_sentinel:
  "matches_new_idea (normalize t) \<Longrightarrow>
   extractFirstKeyword t = \<lparr>keyword = nouvelle_idee, isNewIdea = True\<rparr>"
  by (simp add: extractFirstKeyword_def matches_new_idea_def first_match_iff)

theorem new_idea_sentinel_witness:
  "matches_new_idea (normalize ''New  Idea: an app'') \<and>
   extractFirstKeyword ''New  Idea: an app'' =
     \<lparr>keyword = ''nouvelle id'' @ [CHR 0xE9] @ ''e'', isNewIdea = True\<rparr>"
proof -
  have m: "matches_new_idea (normalize ''New  Idea: an app'')"
    unfolding matches_new_idea_def first_match_iff[symmetric] by code_simp
  from new_idea_sentinel[OF m] m show ?thesis by (simp add: nouvelle_idee_def e_acute_def)
qed

text \<open>
  Claim C6 as stated fails: the transcript \<open>new idea\<close> matches the second pattern, and
  the keyword returned is not the phrase \<open>new idea\<close>.
\<close>

theorem new_idea_keyword_counterexample:
  "matches_new_idea (normalize ''new idea'') \<and> isNewIdea (extractFirstKeyword ''new idea'')
   \<and> keyword (extractFirstKeyword ''new idea'') \<noteq> ''new idea''"
proof -
  have m: "first_match newIdeaPatterns (normalize ''new idea'')" by code_simp
  have k: "extractFirstKeyword ''new idea'' = \<lparr>keyword = nouvelle_idee, isNewIdea = True\<rparr>"
    using m by (simp add: extractFirstKeyword_def)
  have "nouvelle_idee \<noteq> ''new idea''" by (simp add: nouvelle_idee_def)
  with m k show ?thesis by (simp add: matches_new_idea_def first_match_iff)
qed



section \<open>Running the helpers\<close>

lemma world_same_database: "database w = Some d \<Longrightarrow> w\<lparr>database := Some d\<rparr> = w"
  by (cases w) simp

lemma with_db_Some:
  "database w = Some d \<Longrightarrow>
   with_db f w = (Inr (fst (f (clock w) d)), w\<lparr>database := Some (snd (f (clock w) d))\<rparr>)"
  by (simp add: with_db_def split: prod.splits)


lemma set_order_desc: "set (order_desc k rows) = set rows"
  by (simp add: order_desc_def)

lemma filter_order_desc: "filter P (order_desc k rows) = order_desc k (filter P rows)"
  by (simp add: order_desc_def filter_sort)

lemma order_desc_Nil_iff: "order_desc k rows = [] \<longleftrightarrow> rows = []"
  by (metis set_order_desc set_empty)

text \<open>The services touch the log of outbound calls only.\<close>

lemma db_frame_return: "db_frame (return x)"
  by (simp add: db_frame_def return_def)

lemma db_frame_throw: "db_frame (throw e)"
  by (simp add: db_frame_def throw_def)

lemma db_frame_outbound: "db_frame (outbound c a)"
  by (simp add: db_frame_def outbound_def)

lemma db_frame_bind: "db_frame m \<Longrightarrow> (\<And>x. db_frame (f x)) \<Longrightarrow> db_frame (bind m f)"
  by (auto simp: db_frame_def bind_def split: prod.splits sum.splits) (metis snd_conv)+

lemma db_frame_try_catch: "db_frame m \<Longrightarrow> (\<And>e. db_frame (h e)) \<Longrightarrow> db_frame (try_catch m h)"
  by (auto simp: db_frame_def try_catch_def split: prod.splits sum.splits) (metis snd_conv)+

lemma db_frame_first_block: "db_frame (first_block c)"
  by (cases c) (simp_all add: first_block_def db_frame_return db_frame_throw)

lemmas db_frame_intros =
  db_frame_return db_frame_throw db_frame_outbound db_frame_bind db_frame_try_catch
  db_frame_first_block

lemma db_frame_generateProjectDocument: "db_frame (generateProjectDocument E input)"
  unfolding generateProjectDocument_def Let_def
  by (auto intro!: db_frame_intros split: option.splits content_block.splits)



lemma db_frameD:
  "db_frame m \<Longrightarrow> m w = (r, w') \<Longrightarrow> database w' = database w \<and> clock w' = clock w"
  by (metis db_frame_def snd_conv)


lemma length_filter_order_desc: "length (filter P (order_desc k rows)) = length (filter P rows)"
  by (simp add: order_desc_def filter_sort)

lemma first_row_Some_mem: "first_row rows = Some r \<Longrightarrow> r \<in> set rows"
  by (cases rows) (auto simp: first_row_def)

lemma first_row_None_iff: "first_row rows = None \<longleftrightarrow> rows = []"
  by (cases rows) (auto simp: first_row_def)

lemma filter_key_of_updated:
  assumes "distinct (map k rows)" and "x \<in> set rows" and "P x" and "k (g x) = k x"
  shows "filter (\<lambda>r. k r = k x) (map (\<lambda>r. if k r = k x \<and> P r then g r else r) rows) = [g x]"
  using assms
proof (induction rows)
  case Nil
  then show ?case by simp
next
  case (Cons a rows)
  show ?case
  proof (cases "a = x")
    case True
    with Cons.prems have "\<forall>r \<in> set rows. k r \<noteq> k x" by (auto simp: image_iff)
    then have "filter (\<lambda>r. k r = k x) (map (\<lambda>r. if k r = k x \<and> P r then g r else r) rows) = []"
      by (auto simp: filter_empty_conv)
    with True Cons.prems show ?thesis by simp
  next
    case False
    with Cons.prems have x: "x \<in> set rows" and "k a \<noteq> k x" by auto
    with Cons show ?thesis by simp
  qed
qed

lemma map_updated_row:
  assumes "distinct (map k rows)" and "x \<in> set rows" and "P x"
  shows "map (\<lambda>r. if k r = k x \<and> P r then g r else r) rows
       = map (\<lambda>r. if k r = k x then g x else r) rows"
proof (rule map_cong[OF refl])
  fix r assume "r \<in> set rows"
  with assms have "k r = k x \<Longrightarrow> r = x" by (meson distinct_map inj_onD)
  with assms show "(if k r = k x \<and> P r then g r else r) = (if k r = k x then g x else r)" by auto
qed

section \<open>Document synthesis\<close>

text \<open>
  Claim C1. When the project exists for the user and none of its videos has status
  \<open>transcribed\<close> with a non-empty transcript, \<open>documents.generate\<close> fails with
  \<open>BAD_REQUEST\<close> (no transcribed videos) and leaves the world as it was: nothing is
  added to the log of outbound calls, so the generation service is not called.
\<close>

theorem generate_without_content:
  assumes db: "database w = Some d"
    and project: "fst (getProjectById pid (user_id u) w) = Inr (Some p)"
    and none: "\<forall>v \<in> set (project_videos d pid (user_id u)).
                 \<not> (video_status v = Transcribed \<and> truthy (video_transcription v))"
  shows "documents_generate E u pid w =
           (Inl (TRPCError BAD_REQUEST ''No transcribed videos available for this project''), w)
         \<and> calls (snd (documents_generate E u pid w)) = calls w"
proof -
  have p: "getProjectById pid (user_id u) w = (Inr (Some p), w)"
    using db project by (simp add: getProjectById_def with_db_Some world_same_database)
  have "filter is_transcribed (project_videos d pid (user_id u)) = []"
    using none by (auto simp: filter_empty_conv is_transcribed_def)
  then have v: "filter is_transcribed
      (order_desc (\<lambda>r. int (video_createdAt r)) (project_videos d pid (user_id u))) = []"
    by (simp add: filter_order_desc order_desc_Nil_iff)
  have vs: "getVideosByProjectId pid (user_id u) w =
      (Inr (order_desc (\<lambda>r. int (video_createdAt r)) (project_videos d pid (user_id u))), w)"
    using db by (simp add: getVideosByProjectId_def with_db_Some world_same_database project_videos_def)
  show ?thesis
    by (simp add: documents_generate_def bind_def p vs v throw_def Let_def)
qed

theorem generate_without_content_witness:
  "database (world_of db_uploaded) = Some db_uploaded
   \<and> fst (getProjectById 1 (user_id alice) (world_of db_uploaded)) = Inr (Some phoenix)
   \<and> project_videos db_uploaded 1 (user_id alice) = [clip]
   \<and> video_status clip = Uploaded
   \<and> documents_generate silent_env alice 1 (world_of db_uploaded) =
         (Inl (TRPCError BAD_REQUEST ''No transcribed videos available for this project''),
          world_of db_uploaded)
   \<and> calls (snd (documents_generate silent_env alice 1 (world_of db_uploaded))) = []"
proof -
  have a: "database (world_of db_uploaded) = Some db_uploaded" by (simp add: world_of_def)
  have b: "fst (getProjectById 1 (user_id alice) (world_of db_uploaded)) = Inr (Some phoenix)"
    by (simp add: getProjectById_def with_db_def world_of_def db_uploaded_def alice_def
        phoenix_def first_row_def)
  have vs: "project_videos db_uploaded 1 (user_id alice) = [clip]"
    by (simp add: project_videos_def db_uploaded_def clip_def alice_def)
  have st: "video_status clip = Uploaded" by (simp add: clip_def)
  have c: "\<forall>v \<in> set (project_videos db_uploaded 1 (user_id alice)).
         \<not> (video_status v = Transcribed \<and> truthy (video_transcription v))"
    by (simp add: project_videos_def db_uploaded_def clip_def alice_def)
  from generate_without_content[OF a b c, of silent_env] a b vs st show ?thesis
    by (simp add: world_of_def)
qed

text \<open>
  Claim C2. Let the document table have distinct ids (its primary key). When
  \<open>documents.generate\<close> succeeds, the project has at least one transcribed video and the
  returned document records their number in \<open>videosIncorporated\<close>. If the project had
  a document (the one \<open>getDocumentByProjectId\<close> finds), it is that row, its version is
  the old version plus one, and no other row changed; otherwise it is a new row of
  version 1 appended to the table.
\<close>

theorem synthesis_version_and_count:
  assumes db: "database w = Some d"
    and pk: "distinct (map document_id (document_rows d))"
    and ex: "fst (getDocumentByProjectId pid (user_id u) w) = Inr existing"
    and ok: "documents_generate E u pid w = (Inr result, w')"
  shows "\<exists>doc' d'. result = Some doc' \<and> database w' = Some d'
           \<and> document_projectId doc' = pid \<and> document_userId doc' = user_id u
           \<and> 0 < transcribed_count d pid (user_id u)
           \<and> document_videosIncorporated doc' = transcribed_count d pid (user_id u)
           \<and> (case existing of
                 Some doc \<Rightarrow>
                   document_id doc' = document_id doc
                   \<and> document_version doc' = document_version doc + 1
                   \<and> document_rows d' =
                       map (\<lambda>r. if document_id r = document_id doc then doc' else r) (document_rows d)
               | None \<Rightarrow>
                   document_version doc' = 1
                   \<and> document_rows d' = document_rows d @ [doc'])"
proof -
  let ?uid = "user_id u"
  let ?vs = "order_desc (\<lambda>r. int (video_createdAt r)) (project_videos d pid ?uid)"
  let ?tv = "filter is_transcribed ?vs"
  let ?docs = "filter (\<lambda>r. document_projectId r = pid \<and> document_userId r = ?uid) (document_rows d)"
  obtain found where p: "getProjectById pid ?uid w = (Inr found, w)"
    using db by (simp add: getProjectById_def with_db_Some world_same_database)
  have vs: "getVideosByProjectId pid ?uid w = (Inr ?vs, w)"
    using db by (simp add: getVideosByProjectId_def with_db_Some world_same_database project_videos_def)
  have exq: "getDocumentByProjectId pid ?uid w = (Inr (first_row (order_desc document_version ?docs)), w)"
    using db by (simp add: getDocumentByProjectId_def with_db_Some world_same_database)
  with ex have existing: "existing = first_row (order_desc document_version ?docs)" by simp
  from ok p obtain project where found: "found = Some project"
    by (cases found) (auto simp: documents_generate_def bind_def throw_def)
  have n: "length ?tv = transcribed_count d pid ?uid"
    by (simp add: transcribed_count_def length_filter_order_desc)
  from ok p found vs have tv: "?tv \<noteq> []"
    by (auto simp: documents_generate_def bind_def throw_def Let_def)
  then have pos: "0 < transcribed_count d pid ?uid" using n by (metis length_greater_0_conv)
  let ?input = "\<lparr>projectName = project_name project,
       projectDescription = (if truthy (project_description project) then project_description project else None),
       existingContent = map_option document_content existing,
       newTranscriptions = map (\<lambda>v. or_empty (video_transcription v)) ?tv,
       videosCount = length ?tv\<rparr>"
  obtain r1 w1 where g: "generateProjectDocument E ?input w = (r1, w1)" by (cases "generateProjectDocument E ?input w")
  from db_frameD[OF db_frame_generateProjectDocument g] db
  have w1: "database w1 = Some d" "clock w1 = clock w" by simp_all
  have step: "documents_generate E u pid w =
      (case r1 of Inl e \<Rightarrow> (Inl e, w1)
       | Inr generated \<Rightarrow>
          (case existing of
             Some doc \<Rightarrow>
               updateDocument (document_id doc) ?uid
                 \<lparr>dp_title = Some (generated_title generated),
                  dp_content = Some (generated_content generated),
                  dp_version = Some (document_version doc + 1),
                  dp_versionNotes = Some (generated_summary generated),
                  dp_videosIncorporated = Some (length ?tv)\<rparr> w1
           | None \<Rightarrow>
               createDocument
                 \<lparr>id_projectId = pid, id_userId = ?uid,
                  id_title = generated_title generated,
                  id_content = generated_content generated,
                  id_versionNotes = Some (generated_summary generated),
                  id_videosIncorporated = Some (length ?tv)\<rparr> w1))"
    using tv by (simp add: documents_generate_def bind_def p found vs exq existing[symmetric] g Let_def
        split: sum.splits option.splits)
  from ok step obtain generated where r1: "r1 = Inr generated" by (cases r1) auto
  show ?thesis
  proof (cases existing)
    case None
    then have nodocs: "?docs = []" using existing by (simp add: first_row_None_iff order_desc_Nil_iff)
    let ?new = "new_document_row (next_document_id d) (clock w)
                 \<lparr>id_projectId = pid, id_userId = ?uid,
                  id_title = generated_title generated,
                  id_content = generated_content generated,
                  id_versionNotes = Some (generated_summary generated),
                  id_videosIncorporated = Some (length ?tv)\<rparr>"
    have "documents_generate E u pid w =
        (Inr (Some ?new), w1\<lparr>database := Some (d\<lparr>document_rows := document_rows d @ [?new],
                                   next_document_id := Suc (next_document_id d)\<rparr>)\<rparr>)"
      using nodocs w1
      by (simp add: step r1 None createDocument_def with_db_Some Let_def order_desc_def first_row_def
          new_document_row_def)
    with ok None pos n show ?thesis by (auto simp: new_document_row_def)
  next
    case (Some doc)
    then have "doc \<in> set (order_desc document_version ?docs)"
      using existing by (metis first_row_Some_mem)
    then have doc: "doc \<in> set (document_rows d)" "document_projectId doc = pid" "document_userId doc = ?uid"
      by (auto simp: set_order_desc)
    let ?patch = "\<lparr>dp_title = Some (generated_title generated),
                  dp_content = Some (generated_content generated),
                  dp_version = Some (document_version doc + 1),
                  dp_versionNotes = Some (generated_summary generated),
                  dp_videosIncorporated = Some (length ?tv)\<rparr>"
    let ?g = "apply_document_patch ?patch (clock w1)"
    let ?rows = "map (\<lambda>r. if document_id r = document_id doc \<and> document_userId r = ?uid then ?g r else r)
                  (document_rows d)"
    have idg: "document_id (?g doc) = document_id doc" by (simp add: apply_document_patch_def)
    have sel: "filter (\<lambda>r. document_id r = document_id doc) ?rows = [?g doc]"
      using pk doc(1) doc(3) idg by (rule filter_key_of_updated[where P = "\<lambda>r. document_userId r = ?uid"])
    have rows: "?rows = map (\<lambda>r. if document_id r = document_id doc then ?g doc else r) (document_rows d)"
      using pk doc(1) doc(3) by (rule map_updated_row[where P = "\<lambda>r. document_userId r = ?uid"])
    have "documents_generate E u pid w =
        (Inr (Some (?g doc)), w1\<lparr>database := Some (d\<lparr>document_rows := ?rows\<rparr>)\<rparr>)"
      by (simp add: step r1 Some updateDocument_def with_db_Some[OF w1(1)] Let_def sel first_row_def)
    with ok Some pos n doc rows show ?thesis by (auto simp: apply_document_patch_def)
  qed
qed

theorem synthesis_version_and_count_witness:
  "database (world_of db_documented) = Some db_documented
   \<and> distinct (map document_id (document_rows db_documented))
   \<and> fst (getDocumentByProjectId 1 (user_id alice) (world_of db_documented)) = Inr (Some phoenix_doc)
   \<and> document_version phoenix_doc = 3
   \<and> transcribed_count db_documented 1 (user_id alice) = 1
   \<and> (\<exists>doc'. fst (documents_generate writer_env alice 1 (world_of db_documented)) = Inr (Some doc')
          \<and> document_id doc' = document_id phoenix_doc
          \<and> document_version doc' = 4 \<and> document_videosIncorporated doc' = 1)
   \<and> database (world_of db_transcribed) = Some db_transcribed
   \<and> distinct (map document_id (document_rows db_transcribed))
   \<and> fst (getDocumentByProjectId 1 (user_id alice) (world_of db_transcribed)) = Inr None
   \<and> transcribed_count db_transcribed 1 (user_id alice) = 1
   \<and> (\<exists>doc'. fst (documents_generate writer_env alice 1 (world_of db_transcribed)) = Inr (Some doc')
          \<and> document_version doc' = 1 \<and> document_videosIncorporated doc' = 1)"
proof -
  let ?w = "world_of db_documented"
  let ?v = "world_of db_transcribed"
  have a: "database ?w = Some db_documented" by (simp add: world_of_def)
  have b: "distinct (map document_id (document_rows db_documented))" by (simp add: db_documented_def)
  have c: "fst (getDocumentByProjectId 1 (user_id alice) ?w) = Inr (Some phoenix_doc)"
    by code_simp
  have v3: "document_version phoenix_doc = 3" by (simp add: phoenix_doc_def)
  have n: "transcribed_count db_documented 1 (user_id alice) = 1" by code_simp
  have "\<not> isl (fst (documents_generate writer_env alice 1 ?w))" by code_simp
  then obtain r w' where ok: "documents_generate writer_env alice 1 ?w = (Inr r, w')"
    by (cases "documents_generate writer_env alice 1 ?w"; cases "fst (documents_generate writer_env alice 1 ?w)")
      auto
  have a': "database ?v = Some db_transcribed" by (simp add: world_of_def)
  have b': "distinct (map document_id (document_rows db_transcribed))" by (simp add: db_transcribed_def)
  have c': "fst (getDocumentByProjectId 1 (user_id alice) ?v) = Inr None"
    by code_simp
  have n': "transcribed_count db_transcribed 1 (user_id alice) = 1" by code_simp
  have "\<not> isl (fst (documents_generate writer_env alice 1 ?v))" by code_simp
  then obtain r' v' where ok': "documents_generate writer_env alice 1 ?v = (Inr r', v')"
    by (cases "documents_generate writer_env alice 1 ?v"; cases "fst (documents_generate writer_env alice 1 ?v)")
      auto
  from synthesis_version_and_count[OF a b c ok] synthesis_version_and_count[OF a' b' c' ok']
    a b c v3 n a' b' c' n' ok ok'
  show ?thesis by auto
qed

section \<open>Deleting and editing documents\<close>

text \<open>
  Claim C10. With a database configured, \<open>documents.delete\<close> returns success for
  every document id and caller: it deletes the rows with that id and owner and checks
  nothing. When no document has that id and owner it succeeds and leaves the world
  unchanged, whereas \<open>projects.delete\<close> and \<open>videos.delete\<close> fail with \<open>NOT_FOUND\<close>
  when the project or video is missing for the caller.
\<close>

theorem document_delete_always_succeeds:
  assumes db: "database w = Some d"
  shows "documents_delete u did w =
           (Inr True, w\<lparr>database := Some (d\<lparr>document_rows :=
              filter (\<lambda>r. \<not> (document_id r = did \<and> document_userId r = user_id u)) (document_rows d)\<rparr>)\<rparr>)
         \<and> ((\<forall>r \<in> set (document_rows d). \<not> (document_id r = did \<and> document_userId r = user_id u))
              \<longrightarrow> documents_delete u did w = (Inr True, w))
         \<and> (fst (getProjectById pid (user_id u) w) = Inr None
              \<longrightarrow> projects_delete u pid w = (Inl (TRPCError NOT_FOUND ''Project not found''), w))
         \<and> (fst (getVideoById vid (user_id u) w) = Inr None
              \<longrightarrow> videos_delete u vid w = (Inl (TRPCError NOT_FOUND ''Video not found''), w))"
proof (intro conjI impI)
  show del: "documents_delete u did w =
           (Inr True, w\<lparr>database := Some (d\<lparr>document_rows :=
              filter (\<lambda>r. \<not> (document_id r = did \<and> document_userId r = user_id u)) (document_rows d)\<rparr>)\<rparr>)"
    using db by (simp add: documents_delete_def deleteDocument_def bind_def return_def with_db_Some)
  show "documents_delete u did w = (Inr True, w)"
    if "\<forall>r \<in> set (document_rows d). \<not> (document_id r = did \<and> document_userId r = user_id u)"
  proof -
    from that have "filter (\<lambda>r. \<not> (document_id r = did \<and> document_userId r = user_id u)) (document_rows d)
        = document_rows d"
      by (simp add: filter_id_conv)
    with del db show ?thesis by (simp add: world_same_database)
  qed
  show "projects_delete u pid w = (Inl (TRPCError NOT_FOUND ''Project not found''), w)"
    if "fst (getProjectById pid (user_id u) w) = Inr None"
  proof -
    from that db have "getProjectById pid (user_id u) w = (Inr None, w)"
      by (simp add: getProjectById_def with_db_Some world_same_database)
    then show ?thesis by (simp add: projects_delete_def bind_def throw_def)
  qed
  show "videos_delete u vid w = (Inl (TRPCError NOT_FOUND ''Video not found''), w)"
    if "fst (getVideoById vid (user_id u) w) = Inr None"
  proof -
    from that db have "getVideoById vid (user_id u) w = (Inr None, w)"
      by (simp add: getVideoById_def with_db_Some world_same_database)
    then show ?thesis by (simp add: videos_delete_def bind_def throw_def)
  qed
qed

theorem document_delete_always_succeeds_witness:
  "database (world_of db_documented) = Some db_documented
   \<and> document_rows db_documented = [phoenix_doc]
   \<and> document_id phoenix_doc = 1
   \<and> documents_delete alice 7 (world_of db_documented) = (Inr True, world_of db_documented)
   \<and> fst (getProjectById 7 (user_id alice) (world_of db_documented)) = Inr None
   \<and> projects_delete alice 7 (world_of db_documented) =
        (Inl (TRPCError NOT_FOUND ''Project not found''), world_of db_documented)
   \<and> fst (getVideoById 7 (user_id alice) (world_of db_documented)) = Inr None
   \<and> videos_delete alice 7 (world_of db_documented) =
        (Inl (TRPCError NOT_FOUND ''Video not found''), world_of db_documented)"
proof -
  have a: "database (world_of db_documented) = Some db_documented" by (simp add: world_of_def)
  have b: "\<forall>r \<in> set (document_rows db_documented). \<not> (document_id r = 7 \<and> document_userId r = user_id alice)"
    by (simp add: db_documented_def phoenix_doc_def)
  have c: "fst (getProjectById 7 (user_id alice) (world_of db_documented)) = Inr None"
    by (simp add: getProjectById_def with_db_def world_of_def db_documented_def phoenix_def
        first_row_def)
  have e: "fst (getVideoById 7 (user_id alice) (world_of db_documented)) = Inr None"
    by (simp add: getVideoById_def with_db_def world_of_def db_documented_def clip_done_def clip_def
        first_row_def)
  from document_delete_always_succeeds[OF a, of alice 7 7 7] a b c e show ?thesis
    by (simp add: db_documented_def phoenix_doc_def)
qed

text \<open>
  Claim C7 does not hold of the code: \<open>documents.update\<close> sets the content and the
  time of the update only. No version changes, whichever document is edited.
\<close>

lemma documents_update_keeps_versions:
  assumes "database w = Some d"
  shows "\<exists>d'. database (snd (documents_update u did content w)) = Some d'
          \<and> map document_version (document_rows d') = map document_version (document_rows d)"
  using assms
  by (simp add: documents_update_def updateDocument_def with_db_Some Let_def
      apply_document_patch_def no_document_patch_def comp_def)

text \<open>
  The failing input for claim C7: the document of version 3 is edited by its owner; the
  returned document has the new content and still version 3.
\<close>

theorem manual_edit_keeps_version:
  "map_option document_version (first_row (document_rows db_documented)) = Some 3
   \<and> map_sum id (map_option (\<lambda>r. (document_content r, document_version r)))
        (fst (documents_update alice 1 ''edited'' (world_of db_documented)))
      = Inr (Some (''edited'', 3))"
  by (simp add: documents_update_def updateDocument_def with_db_def world_of_def db_documented_def
      phoenix_doc_def alice_def Let_def apply_document_patch_def no_document_patch_def first_row_def)

section \<open>Transcription requests\<close>











lemma bind_Inl: "m w = (Inl e, w') \<Longrightarrow> bind m f w = (Inl e, w')"
  by (simp add: bind_def)

lemma fst_outbound: "fst (outbound c a w) = a"
  by (simp add: outbound_def)







section \<open>What the services do with a failure of a collaborator\<close>

text \<open>
  The classifier falls back to the keyword extractor when the answer of the
  text-understanding service has no brace-delimited part.
\<close>

lemma classify_no_json:
  assumes "genAI E = Some g" and "transcribeAudio E url = Inr (WhisperText t)"
    and "g t = Inr response" and "jsonMatch response = None"
  shows "fst (transcribeWithGemini E url w) =
     Inr \<lparr>result_text = t,
          result_firstKeyword = keyword (extractFirstKeyword t),
          result_isNewIdea = isNewIdea (extractFirstKeyword t),
          result_suggestedProjectName =
            (if isNewIdea (extractFirstKeyword t) then None else Some (keyword (extractFirstKeyword t)))\<rparr>"
  using assms
  by (simp add: transcribeWithGemini_def try_catch_def bind_def outbound_def return_def Let_def)

text \<open>
  When the answer has a brace-delimited part and \<open>JSON.parse\<close> throws on it, the
  classifier throws what \<open>JSON.parse\<close> threw: the extractor is not consulted.
\<close>

lemma classify_malformed_json:
  assumes "genAI E = Some g" and "transcribeAudio E url = Inr (WhisperText t)"
    and "g t = Inr response" and "jsonMatch response = Some m" and "JSON_parse E m = Inl e"
  shows "fst (transcribeWithGemini E url w) = Inl e"
  using assms
  by (simp add: transcribeWithGemini_def try_catch_def bind_def outbound_def throw_def)

text \<open>
  The failing input for claim C5: the transcript is \<open>Phoenix est un projet de refonte.\<close>
  and the service answers \<open>{nope}\<close>. The brace-delimited part is found, \<open>JSON.parse\<close>
  throws, and \<open>transcribeWithGemini\<close> fails with that error, although the extractor
  would have given the keyword \<open>phoenix est un\<close>.
\<close>

theorem malformed_json_is_not_recovered:
  "jsonMatch ''{nope}'' = Some ''{nope}''
   \<and> JSON_parse garbled_env ''{nope}'' = Inl (JsError ''Unexpected token n in JSON at position 1'')
   \<and> fst (transcribeWithGemini garbled_env ''https://storage/a.webm'' (world_of db_uploaded))
       = Inl (JsError ''Unexpected token n in JSON at position 1'')
   \<and> extractFirstKeyword ''Phoenix est un projet de refonte.''
       = \<lparr>keyword = ''phoenix est un'', isNewIdea = False\<rparr>"
  by code_simp











section \<open>The new-ideas project\<close>







lemma keeps_ok_db_frame: "db_frame m \<Longrightarrow> keeps_ok m"
  by (simp add: keeps_ok_def db_frame_def world_ok_def)


lemma keeps_ok_first_block: "keeps_ok (first_block c)"
  by (rule keeps_ok_db_frame) (rule db_frame_first_block)










































end
